theory Spec2Isabelle
  imports Main
begin

section \<open>WhisperBot: the secret store, the user directory and the query handlers\<close>

text \<open>
  A shallow embedding of \<^verbatim>\<open>src/wspr.py\<close>. The module keeps its state in three
  dictionaries and one database collection; the handlers below take that state and
  return the new one together with what they sent to the chat platform.

  Text is \<^typ>\<open>string\<close>, one \<^typ>\<open>char\<close> per code point, so the model covers the
  code points below U+0100. Clock readings and random draws are arguments.
\<close>

subsection \<open>Data model\<close>

text \<open>
  \<^verbatim>\<open>whisper_messages = {}  # {message_id: [target_user_id, sender_id, message_content]}\<close>
\<close>

type_synonym whisper = "int \<times> int \<times> string"

text \<open>
  A document of \<^verbatim>\<open>users_collection\<close>, as \<^verbatim>\<open>store_user_info\<close> writes it. The
  field \<^verbatim>\<open>username\<close> is absent from a document that was never given one; a
  \<^verbatim>\<open>last_name\<close> of \<^verbatim>\<open>None\<close> is stored as null.
\<close>

record user_doc =
  user_id :: int
  first_name :: string
  last_name :: "string option"
  last_seen :: nat
  username :: "string option"

text \<open>
  The fields of a platform user (\<^verbatim>\<open>types.User\<close>) that the module reads: \<^verbatim>\<open>id\<close>,
  \<^verbatim>\<open>first_name\<close>, \<^verbatim>\<open>last_name\<close> and \<^verbatim>\<open>username\<close>.
\<close>

record tg_user =
  u_id :: int
  u_first_name :: string
  u_last_name :: "string option"
  u_username :: "string option"

record bot_state =
  whisper_messages :: "int \<rightharpoonup> whisper"
  users_collection :: "user_doc list"
  username_cache :: "int \<rightharpoonup> string \<times> nat"
  username_to_id_cache :: "string \<rightharpoonup> int \<times> nat"

text \<open>The module at start-up: the three dictionaries are empty. The collection is the
  database's, taken here as empty too.\<close>

definition initial_state :: bot_state where
  "initial_state =
     \<lparr>whisper_messages = Map.empty, users_collection = [],
      username_cache = Map.empty, username_to_id_cache = Map.empty\<rparr>"

text \<open>
  What a button-press handler sends: \<^verbatim>\<open>callback_query.answer(text, show_alert)\<close>, and
  \<^verbatim>\<open>callback_query.edit_message_text\<close> with the fixed "deleted" placeholder (a
  \<^verbatim>\<open>BadRequest\<close> from the edit is swallowed by the handler).
\<close>

datatype effect = Answer string bool | Edit_message_deleted

text \<open>The exceptions that the modelled code can raise by itself.\<close>

datatype py_error = IndexError | ValueError

subsection \<open>Strings, numbers and patterns of the Python runtime\<close>

text \<open>
  \<^verbatim>\<open>str.isspace\<close> on one code point below U+0100: the controls U+0009 to U+000D and
  U+001C to U+001F, the space, U+0085 and U+00A0.
\<close>

definition isspace_char :: "char \<Rightarrow> bool" where
  "isspace_char c =
     (let n = (of_char c :: nat)
      in (9 \<le> n \<and> n \<le> 13) \<or> (28 \<le> n \<and> n \<le> 32) \<or> n = 133 \<or> n = 160)"

text \<open>The decimal digits \<^verbatim>\<open>0\<close> to \<^verbatim>\<open>9\<close>: what \<^verbatim>\<open>\d\<close> matches and \<^verbatim>\<open>int\<close> reads.\<close>

definition is_decimal :: "char \<Rightarrow> bool" where
  "is_decimal c = (let n = (of_char c :: nat) in 48 \<le> n \<and> n \<le> 57)"

text \<open>
  \<^verbatim>\<open>str.isdigit\<close>: true of a non-empty string of digit characters. Below U+0100 these
  are the decimal digits and the superscripts U+00B2, U+00B3 and U+00B9, which
  \<^verbatim>\<open>int\<close> rejects.
\<close>

definition isdigit_char :: "char \<Rightarrow> bool" where
  "isdigit_char c =
     (let n = (of_char c :: nat) in is_decimal c \<or> n = 178 \<or> n = 179 \<or> n = 185)"

definition isdigit :: "string \<Rightarrow> bool" where
  "isdigit s = (s \<noteq> [] \<and> list_all isdigit_char s)"

definition digit_value :: "char \<Rightarrow> int" where
  "digit_value c = int (of_char c) - 48"

text \<open>
  \<^verbatim>\<open>int(s)\<close> at the two places the module calls it: on a string for which
  \<^verbatim>\<open>isdigit\<close> holds and on a match of \<^verbatim>\<open>\d+\<close>. \<open>None\<close> is the \<^verbatim>\<open>ValueError\<close>
  that \<^verbatim>\<open>int\<close> raises on a digit character that is not decimal. Recent
  interpreters also refuse a string of more than 4300 digits, and the database driver an
  integer beyond eight bytes; both lie far above any identifier of the platform and are
  not in the model.
\<close>

definition py_int :: "string \<Rightarrow> int option" where
  "py_int s =
     (if s \<noteq> [] \<and> list_all is_decimal s
      then Some (foldl (\<lambda>acc c. 10 * acc + digit_value c) 0 s)
      else None)"

text \<open>The decimal rendering that an f-string gives an integer.\<close>

fun str_nat :: "nat \<Rightarrow> string" where
  "str_nat n =
     (if n < 10 then [char_of (48 + n)]
      else str_nat (n div 10) @ [char_of (48 + n mod 10)])"

declare str_nat.simps [simp del]

definition str_int :: "int \<Rightarrow> string" where
  "str_int i = (if i < 0 then CHR ''-'' # str_nat (nat (- i)) else str_nat (nat i))"

text \<open>
  \<^verbatim>\<open>s.split(maxsplit=1)\<close>: leading whitespace is skipped, the first word runs to the
  next whitespace, and what follows the whitespace after it, if anything, is the second
  part, trailing whitespace included.
\<close>

definition split1 :: "string \<Rightarrow> string list" where
  "split1 s =
     (let s1 = dropWhile isspace_char s
      in if s1 = [] then []
         else
           let word = takeWhile (\<lambda>c. \<not> isspace_char c) s1;
               rest = dropWhile isspace_char (dropWhile (\<lambda>c. \<not> isspace_char c) s1)
           in if rest = [] then [word] else [word, rest])"

text \<open>
  The tail \<^verbatim>\<open>(\d+)$\<close> of both callback patterns, giving group 1. The \<^verbatim>\<open>$\<close> of
  Python's \<^verbatim>\<open>re\<close> also matches before a newline that ends the string.
\<close>

definition match_digits_end :: "string \<Rightarrow> string option" where
  "match_digits_end s =
     (let ds = takeWhile is_decimal s;
          rest = dropWhile is_decimal s
      in if ds \<noteq> [] \<and> (rest = [] \<or> rest = [CHR 0x0A]) then Some ds else None)"

text \<open>\<^verbatim>\<open>filters.regex(r"^show_(\d+)$")\<close> and \<^verbatim>\<open>filters.regex(r"^del_(\d+)$")\<close>.\<close>

definition show_regex :: "string \<Rightarrow> string option" where
  "show_regex data =
     (if take 5 data = ''show_'' then match_digits_end (drop 5 data) else None)"

definition del_regex :: "string \<Rightarrow> string option" where
  "del_regex data =
     (if take 4 data = ''del_'' then match_digits_end (drop 4 data) else None)"

text \<open>
  \<^verbatim>\<open>random.randint(a, b)\<close> is \<open>a\<close> plus a draw below \<open>b - a + 1\<close>; \<open>draw\<close> is what
  the generator supplies, reduced to that width.
\<close>

definition randint :: "int \<Rightarrow> int \<Rightarrow> nat \<Rightarrow> int" where
  "randint a b draw = a + int (draw mod nat (b - a + 1))"

definition generate_message_id :: "nat \<Rightarrow> int" where
  "generate_message_id draw = randint 10000000 999999999 draw"

subsection \<open>User directory\<close>

text \<open>
  \<^verbatim>\<open>get_user_info\<close> on a string, which is what both inline handlers pass.
  \<^verbatim>\<open>find_one\<close> gives the first matching document. The \<^verbatim>\<open>ValueError\<close> of \<^verbatim>\<open>int\<close> is
  caught by the function's \<^verbatim>\<open>except Exception\<close> and ends in \<^verbatim>\<open>return None\<close>. The
  \<^verbatim>\<open>@\<close> is removed in the branch for names only.
\<close>

definition get_user_info :: "bot_state \<Rightarrow> string \<Rightarrow> user_doc option" where
  "get_user_info st username_or_id =
     (if isdigit username_or_id then
        (case py_int username_or_id of
           None \<Rightarrow> None
         | Some n \<Rightarrow> find (\<lambda>d. user_id d = n) (users_collection st))
      else
        (let name = (case username_or_id of
                       c # cs \<Rightarrow> if c = CHR ''@'' then cs else username_or_id
                     | [] \<Rightarrow> username_or_id)
         in find (\<lambda>d. username d = Some name) (users_collection st)))"

text \<open>The user's username when \<^verbatim>\<open>if user.username:\<close> holds: neither \<^verbatim>\<open>None\<close> nor empty.\<close>

definition given_username :: "tg_user \<Rightarrow> string option" where
  "given_username user =
     (case u_username user of
        None \<Rightarrow> None
      | Some name \<Rightarrow> if name = [] then None else Some name)"

text \<open>
  \<^verbatim>\<open>update_one(query, {"$set": ...}, upsert=True)\<close>: the first document that matches has
  the fields set; when none matches, a new document is inserted.
\<close>

fun update_one_upsert ::
  "('a \<Rightarrow> bool) \<Rightarrow> ('a \<Rightarrow> 'a) \<Rightarrow> 'a \<Rightarrow> 'a list \<Rightarrow> 'a list" where
  "update_one_upsert q set_fields inserted [] = [inserted]"
| "update_one_upsert q set_fields inserted (d # ds) =
     (if q d then set_fields d # ds
      else d # update_one_upsert q set_fields inserted ds)"

text \<open>
  \<^verbatim>\<open>store_user_info\<close>. \<^verbatim>\<open>user_data\<close> holds \<^verbatim>\<open>username\<close> only when the user has one, so
  \<^verbatim>\<open>$set\<close> leaves the stored \<^verbatim>\<open>username\<close> of a user without one as it was. \<open>now\<close> is
  the reading of \<^verbatim>\<open>datetime.now()\<close>; the later readings that stamp the two cache
  entries, which nothing reads, are taken as the same instant.
\<close>

definition store_user_info :: "bot_state \<Rightarrow> nat \<Rightarrow> tg_user \<Rightarrow> bot_state" where
  "store_user_info st now user =
     (let set_fields = (\<lambda>d. d\<lparr>user_id := u_id user,
                               first_name := u_first_name user,
                               last_name := u_last_name user,
                               last_seen := now,
                               username := (case given_username user of
                                              None \<Rightarrow> username d
                                            | Some name \<Rightarrow> Some name)\<rparr>);
          inserted = \<lparr>user_id = u_id user,
                      first_name = u_first_name user,
                      last_name = u_last_name user,
                      last_seen = now,
                      username = given_username user\<rparr>;
          st1 = st\<lparr>users_collection :=
                     update_one_upsert (\<lambda>d. user_id d = u_id user) set_fields inserted
                       (users_collection st)\<rparr>
      in case given_username user of
           None \<Rightarrow> st1
         | Some name \<Rightarrow>
             st1\<lparr>username_cache := (username_cache st1)(u_id user \<mapsto> (name, now)),
                 username_to_id_cache :=
                   (username_to_id_cache st1)(name \<mapsto> (u_id user, now))\<rparr>)"

subsection \<open>Secret store: the button-press handlers\<close>


text \<open>
  \<^verbatim>\<open>show_message_callback\<close>, from the membership test on: \<open>message_id\<close> is the parsed
  identifier and \<open>from_user_id\<close> is \<^verbatim>\<open>callback_query.from_user.id\<close>.
\<close>

definition show_message_callback :: "bot_state \<Rightarrow> int \<Rightarrow> int \<Rightarrow> bot_state \<times> effect list" where
  "show_message_callback st message_id from_user_id =
     (case whisper_messages st message_id of
        None \<Rightarrow> (st, [Answer ''This message has expired or does not exist.'' True])
      | Some (target_id, sender_id, message_text) \<Rightarrow>
          if from_user_id = target_id
          then (st, [Answer message_text True])
          else (st, [Answer ''This message is not for you.'' True]))"

text \<open>\<^verbatim>\<open>delete_message_callback\<close>: \<^verbatim>\<open>del whisper_messages[message_id]\<close> for the sender only.\<close>

definition delete_message_callback :: "bot_state \<Rightarrow> int \<Rightarrow> int \<Rightarrow> bot_state \<times> effect list" where
  "delete_message_callback st message_id from_user_id =
     (case whisper_messages st message_id of
        None \<Rightarrow> (st, [Answer ''This message has already been deleted.'' True])
      | Some (target_id, sender_id, message_text) \<Rightarrow>
          if from_user_id = sender_id
          then (st\<lparr>whisper_messages := (whisper_messages st)(message_id := None)\<rparr>,
                [Answer ''Message deleted.'' True, Edit_message_deleted])
          else (st, [Answer ''Only the sender can delete this message.'' True]))"

text \<open>
  The two button-press handlers behind their patterns: the first handler whose pattern
  matches \<^verbatim>\<open>callback_query.data\<close> runs, on \<^verbatim>\<open>int(callback_query.matches[0].group(1))\<close>;
  no handler runs on other data.
\<close>

definition on_callback_query ::
  "bot_state \<Rightarrow> string \<Rightarrow> int \<Rightarrow> py_error + bot_state \<times> effect list" where
  "on_callback_query st data from_user_id =
     (case show_regex data of
        Some g \<Rightarrow>
          (case py_int g of
             None \<Rightarrow> Inl ValueError
           | Some message_id \<Rightarrow> Inr (show_message_callback st message_id from_user_id))
      | None \<Rightarrow>
          (case del_regex data of
             Some g \<Rightarrow>
               (case py_int g of
                  None \<Rightarrow> Inl ValueError
                | Some message_id \<Rightarrow> Inr (delete_message_callback st message_id from_user_id))
           | None \<Rightarrow> Inr (st, [])))"

subsection \<open>The whisper-compose inline query\<close>

text \<open>
  An answer to an inline query is a list of article cards and a cache hint. The card of
  a stored whisper has the text "Secret Message for" the recipient's display label and
  three buttons: show and delete, each with its \<^verbatim>\<open>callback_data\<close>, and new message,
  with its \<^verbatim>\<open>switch_inline_query_current_chat\<close>.
\<close>

datatype message_content = Text string | Secret_message_for string

datatype button = Show_button string | Delete_button string | New_message_button string

record article =
  title :: string
  description :: string
  input_message_content :: message_content
  reply_markup :: "button list list"

record inline_answer =
  results :: "article list"
  cache_time :: "nat option"

text \<open>
  The registration inside \<^verbatim>\<open>handle_wspr_query\<close>: \<^verbatim>\<open>message_id = generate_message_id()\<close>
  and \<^verbatim>\<open>whisper_messages[message_id] = [target, sender, message_text]\<close>. The assignment
  is made whatever \<^verbatim>\<open>whisper_messages\<close> holds under \<^verbatim>\<open>message_id\<close>.
\<close>

definition register :: "bot_state \<Rightarrow> nat \<Rightarrow> int \<Rightarrow> int \<Rightarrow> string \<Rightarrow> bot_state \<times> int" where
  "register st draw target_id sender_id message_text =
     (let message_id = generate_message_id draw
      in (st\<lparr>whisper_messages :=
               (whisper_messages st)(message_id \<mapsto> (target_id, sender_id, message_text))\<rparr>,
          message_id))"

text \<open>\<^verbatim>\<open>user_display\<close>: \<^verbatim>\<open>@username\<close>, or \<^verbatim>\<open>user<id>\<close> for a document without username.\<close>

definition user_display :: "user_doc \<Rightarrow> string" where
  "user_display user_info =
     (case username user_info of
        None \<Rightarrow> ''user'' @ str_int (user_id user_info)
      | Some name \<Rightarrow> if name = [] then name else CHR ''@'' # name)"

text \<open>
  \<^verbatim>\<open>handle_wspr_query\<close>. \<^verbatim>\<open>query_parts[1].split(maxsplit=1)[0]\<close> raises \<^verbatim>\<open>IndexError\<close>
  on an empty split, which is a branch here. The sender's profile is stored before the
  query is looked at.
\<close>

definition handle_wspr_query ::
  "bot_state \<Rightarrow> nat \<Rightarrow> nat \<Rightarrow> tg_user \<Rightarrow> string \<Rightarrow> bot_state \<times> (py_error + inline_answer)" where
  "handle_wspr_query st now draw from_user query =
     (let query_parts = split1 query;
          st1 = store_user_info st now from_user
      in case query_parts of
           _ # rest # _ \<Rightarrow>
             (case split1 rest of
                [] \<Rightarrow> (st1, Inl IndexError)
              | target # after_target \<Rightarrow>
                  (case get_user_info st1 target of
                     None \<Rightarrow>
                       (st1, Inr \<lparr>results =
                            [\<lparr>title = ''User Not Found'',
                              description = ''Make sure username or ID is correct.'',
                              input_message_content = Text ''Make sure username or ID is correct.'',
                              reply_markup = []\<rparr>],
                           cache_time = None\<rparr>)
                   | Some user_info \<Rightarrow>
                       (case after_target of
                          [] \<Rightarrow>
                            (st1, Inr \<lparr>results =
                                 [\<lparr>title = ''Type your message'',
                                   description = ''You didn't type your message.'',
                                   input_message_content = Text ''You didn't type your message.'',
                                   reply_markup = []\<rparr>],
                                cache_time = None\<rparr>)
                        | message_text # _ \<Rightarrow>
                            (case register st1 draw (user_id user_info) (u_id from_user)
                                    message_text of
                               (st2, message_id) \<Rightarrow>
                                 (st2,
                                  Inr \<lparr>results =
                                         [\<lparr>title = first_name user_info,
                                           description = message_text,
                                           input_message_content =
                                             Secret_message_for (user_display user_info),
                                           reply_markup =
                                             [[Show_button (''show_'' @ str_int message_id),
                                               Delete_button (''del_'' @ str_int message_id)],
                                              [New_message_button
                                                 (''wspr '' @ target @ '' '')]]\<rparr>],
                                       cache_time = Some 1\<rparr>)))))
         | _ \<Rightarrow>
             (st1, Inr \<lparr>results =
                  [\<lparr>title = ''Give Username'',
                    description = ''You didn't type a username or ID.'',
                    input_message_content = Text ''You didn't specify a username or ID.'',
                    reply_markup = []\<rparr>],
                 cache_time = None\<rparr>))"

section \<open>Properties\<close>

subsection \<open>Auxiliary facts\<close>

lemma generate_message_id_range:
  "10000000 \<le> generate_message_id draw \<and> generate_message_id draw \<le> 999999999"
proof -
  have "draw mod 990000000 < 990000000" by simp
  then have "int (draw mod 990000000) < 990000000" by linarith
  then show ?thesis
    by (simp add: generate_message_id_def randint_def)
qed

lemma show_message_callback_state: "fst (show_message_callback st i p) = st"
  by (simp add: show_message_callback_def split: option.split)

lemma reveals_keep_state:
  "foldl (\<lambda>s (j, q). fst (show_message_callback s j q)) st calls = st"
  by (induction calls arbitrary: st) (simp_all add: show_message_callback_state split: prod.split)

lemma digit_chars:
  "char_of (48::nat) = CHR ''0''" "char_of (49::nat) = CHR ''1''"
  "char_of (50::nat) = CHR ''2''" "char_of (51::nat) = CHR ''3''"
  "char_of (52::nat) = CHR ''4''" "char_of (53::nat) = CHR ''5''"
  "char_of (54::nat) = CHR ''6''" "char_of (55::nat) = CHR ''7''"
  "char_of (56::nat) = CHR ''8''" "char_of (57::nat) = CHR ''9''"
  by code_simp+

lemma is_decimal_char_of: "d < 10 \<Longrightarrow> is_decimal (char_of (48 + d :: nat))"
  by (simp add: is_decimal_def Let_def)

lemma digit_value_char_of: "d < 10 \<Longrightarrow> digit_value (char_of (48 + d :: nat)) = int d"
  by (simp add: digit_value_def)

lemma str_nat_not_Nil: "str_nat n \<noteq> []"
  by (subst str_nat.simps) simp

lemma str_nat_decimal: "list_all is_decimal (str_nat n)"
proof (induction n rule: str_nat.induct)
  case (1 n)
  show ?case
  proof (cases "n < 10")
    case True
    then show ?thesis
      by (subst str_nat.simps) (simp add: is_decimal_char_of)
  next
    case False
    then have "list_all is_decimal (str_nat (n div 10))" using "1" by simp
    moreover have "is_decimal (char_of (48 + n mod 10))"
      by (rule is_decimal_char_of) simp
    ultimately show ?thesis using False
      by (subst str_nat.simps) simp
  qed
qed

lemma str_nat_value: "foldl (\<lambda>acc c. 10 * acc + digit_value c) 0 (str_nat n) = int n"
proof (induction n rule: str_nat.induct)
  case (1 n)
  show ?case
  proof (cases "n < 10")
    case True
    then show ?thesis
      by (subst str_nat.simps) (simp add: digit_value_char_of)
  next
    case False
    then have ih: "foldl (\<lambda>acc c. 10 * acc + digit_value c) 0 (str_nat (n div 10)) = int (n div 10)"
      using "1" by simp
    have dv: "digit_value (char_of (48 + n mod 10)) = int (n mod 10)"
      by (rule digit_value_char_of) simp
    have "int n = 10 * int (n div 10) + int (n mod 10)"
      by (simp add: zdiv_int zmod_int)
    then show ?thesis using False ih dv
      by (subst str_nat.simps) simp
  qed
qed

lemma py_int_str_nat: "py_int (str_nat n) = Some (int n)"
  by (simp add: py_int_def str_nat_not_Nil str_nat_decimal str_nat_value)

lemma isdigit_str_nat: "isdigit (str_nat n)"
proof -
  have "list_all isdigit_char (str_nat n)"
    using str_nat_decimal [of n] by (simp add: list_all_iff isdigit_char_def Let_def)
  then show ?thesis by (simp add: isdigit_def str_nat_not_Nil)
qed

lemma isdigit_decimal: "s \<noteq> [] \<Longrightarrow> list_all is_decimal s \<Longrightarrow> isdigit s"
  by (simp add: isdigit_def list_all_iff isdigit_char_def Let_def)

lemma takeWhile_all: "list_all P xs \<Longrightarrow> takeWhile P xs = xs"
  by (induction xs) simp_all

lemma dropWhile_all: "list_all P xs \<Longrightarrow> dropWhile P xs = []"
  by (induction xs) simp_all

lemma match_digits_end_str_nat: "match_digits_end (str_nat n) = Some (str_nat n)"
  by (simp add: match_digits_end_def Let_def takeWhile_all dropWhile_all
        str_nat_decimal str_nat_not_Nil)

lemma show_regex_token: "show_regex (''show_'' @ str_nat n) = Some (str_nat n)"
  by (simp add: show_regex_def match_digits_end_str_nat)

lemma del_regex_token: "del_regex (''del_'' @ str_nat n) = Some (str_nat n)"
  by (simp add: del_regex_def match_digits_end_str_nat)

lemma show_regex_del_token: "show_regex (''del_'' @ s) = None"
  by (simp add: show_regex_def)

lemma isdigit_at: "\<not> isdigit (CHR ''@'' # h)"
  by (simp add: isdigit_def isdigit_char_def is_decimal_def)

lemma get_user_info_at:
  "get_user_info st (CHR ''@'' # h) = find (\<lambda>d. username d = Some h) (users_collection st)"
  by (simp add: get_user_info_def isdigit_at)

lemma get_user_info_name:
  "\<not> isdigit h \<Longrightarrow> take 1 h \<noteq> ''@'' \<Longrightarrow>
     get_user_info st h = find (\<lambda>d. username d = Some h) (users_collection st)"
  by (cases h) (simp_all add: get_user_info_def)

lemma get_user_info_digits:
  "isdigit s \<Longrightarrow> py_int s = Some n \<Longrightarrow>
     get_user_info st s = find (\<lambda>d. user_id d = n) (users_collection st)"
  by (simp add: get_user_info_def)

lemma find_in_set: "find P xs = Some x \<Longrightarrow> x \<in> set xs"
  by (induction xs) (auto split: if_splits)

lemma get_user_info_stored: "get_user_info st s = Some d \<Longrightarrow> d \<in> set (users_collection st)"
  by (auto simp add: get_user_info_def Let_def dest: find_in_set split: if_splits option.splits)

lemma find_upsert_same:
  assumes "\<And>d. q d \<Longrightarrow> q (f d)" and "q new"
  shows "find q (update_one_upsert q f new ds) =
           Some (case find q ds of None \<Rightarrow> new | Some d \<Rightarrow> f d)"
  using assms by (induction ds) simp_all

lemma find_upsert_other:
  assumes "\<And>d. q d \<Longrightarrow> \<not> q' d \<and> \<not> q' (f d)" and "\<not> q' new"
  shows "find q' (update_one_upsert q f new ds) = find q' ds"
  using assms by (induction ds) auto

lemma upsert_twice:
  assumes "\<And>d. q d \<Longrightarrow> q (f d) \<and> f (f d) = f d" and "q new" and "f new = new"
  shows "update_one_upsert q f new (update_one_upsert q f new ds) = update_one_upsert q f new ds"
  using assms by (induction ds) simp_all

lemma store_user_info_users:
  "users_collection (store_user_info st now u) =
     update_one_upsert (\<lambda>d. user_id d = u_id u)
       (\<lambda>d. d\<lparr>user_id := u_id u, first_name := u_first_name u, last_name := u_last_name u,
                last_seen := now,
                username := (case given_username u of None \<Rightarrow> username d
                             | Some name \<Rightarrow> Some name)\<rparr>)
       \<lparr>user_id = u_id u, first_name = u_first_name u, last_name = u_last_name u,
        last_seen = now, username = given_username u\<rparr>
       (users_collection st)"
  by (simp add: store_user_info_def Let_def split: option.split)

lemma store_user_info_whispers:
  "whisper_messages (store_user_info st now u) = whisper_messages st"
  by (simp add: store_user_info_def Let_def split: option.split)

lemma store_user_info_twice:
  "store_user_info (store_user_info st now u) now u = store_user_info st now u"
proof -
  let ?f = "\<lambda>d. d\<lparr>user_id := u_id u, first_name := u_first_name u,
                     last_name := u_last_name u, last_seen := now,
                     username := (case given_username u of None \<Rightarrow> username d
                                  | Some name \<Rightarrow> Some name)\<rparr>"
  let ?new = "\<lparr>user_id = u_id u, first_name = u_first_name u, last_name = u_last_name u,
               last_seen = now, username = given_username u\<rparr>"
  let ?up = "update_one_upsert (\<lambda>d. user_id d = u_id u) ?f ?new"
  have tw: "?up (?up (users_collection st)) = ?up (users_collection st)"
    by (rule upsert_twice) (simp_all split: option.split)
  show ?thesis
  proof (cases "given_username u")
    case None
    then show ?thesis using tw by (simp add: store_user_info_def Let_def)
  next
    case (Some name)
    then show ?thesis using tw by (simp add: store_user_info_def Let_def)
  qed
qed

lemma split1_cases:
  "split1 s = [] \<or> (\<exists>w. split1 s = [w])
   \<or> (\<exists>w r. split1 s = [w, r] \<and> r \<noteq> [] \<and> \<not> isspace_char (hd r))"
proof -
  let ?s1 = "dropWhile isspace_char s"
  let ?rest = "dropWhile isspace_char (dropWhile (\<lambda>c. \<not> isspace_char c) ?s1)"
  show ?thesis
  proof (cases "?s1 = []")
    case True
    then have "split1 s = []"
      unfolding split1_def Let_def by (simp only: if_True simp_thms)
    then show ?thesis by blast
  next
    case False
    show ?thesis
    proof (cases "?rest = []")
      case True
      with False have "split1 s = [takeWhile (\<lambda>c. \<not> isspace_char c) ?s1]"
        unfolding split1_def Let_def by (simp only: if_True if_False simp_thms)
      then show ?thesis by blast
    next
      case r: False
      then have "\<not> isspace_char (hd ?rest)" by (rule hd_dropWhile)
      moreover from False r
      have "split1 s = [takeWhile (\<lambda>c. \<not> isspace_char c) ?s1, ?rest]"
        unfolding split1_def Let_def by (simp only: if_False simp_thms)
      ultimately show ?thesis using r by blast
    qed
  qed
qed

lemma split1_of_rest:
  assumes "r \<noteq> []" and "\<not> isspace_char (hd r)"
  shows "\<exists>target. split1 r = [target] \<or> (\<exists>body. split1 r = [target, body] \<and> body \<noteq> [])"
proof -
  from assms have d: "dropWhile isspace_char r = r"
    by (cases r) simp_all
  let ?rest = "dropWhile isspace_char (dropWhile (\<lambda>c. \<not> isspace_char c) r)"
  show ?thesis
  proof (cases "?rest = []")
    case True
    with assms(1) have "split1 r = [takeWhile (\<lambda>c. \<not> isspace_char c) r]"
      unfolding split1_def Let_def d by (simp only: if_True if_False simp_thms)
    then show ?thesis by blast
  next
    case False
    with assms(1) have "split1 r = [takeWhile (\<lambda>c. \<not> isspace_char c) r, ?rest]"
      unfolding split1_def Let_def d by (simp only: if_False simp_thms)
    with False show ?thesis by blast
  qed
qed

lemma split1_second:
  assumes "split1 q = [w, rest]"
  shows "\<exists>target. split1 rest = [target]
           \<or> (\<exists>body. split1 rest = [target, body] \<and> body \<noteq> [])"
proof -
  from split1_cases [of q] assms have "rest \<noteq> [] \<and> \<not> isspace_char (hd rest)"
    by auto
  then show ?thesis by (simp add: split1_of_rest)
qed

lemma register_whispers:
  "fst (register st draw t s m) =
     st\<lparr>whisper_messages := (whisper_messages st)(generate_message_id draw \<mapsto> (t, s, m))\<rparr>"
  by (simp add: register_def Let_def)

lemma handle_no_target:
  assumes "length (split1 q) < 2"
  shows "handle_wspr_query st now draw u q =
           (store_user_info st now u,
            Inr \<lparr>results =
                 [\<lparr>title = ''Give Username'',
                   description = ''You didn't type a username or ID.'',
                   input_message_content = Text ''You didn't specify a username or ID.'',
                   reply_markup = []\<rparr>],
                cache_time = None\<rparr>)"
proof -
  from assms have "split1 q = [] \<or> (\<exists>w. split1 q = [w])"
    using split1_cases [of q] by auto
  then show ?thesis
    by (auto simp add: handle_wspr_query_def Let_def)
qed

lemma handle_unresolved:
  assumes "split1 q = [w, rest]" and "split1 rest = target # after"
    and "get_user_info (store_user_info st now u) target = None"
  shows "handle_wspr_query st now draw u q =
           (store_user_info st now u,
            Inr \<lparr>results =
                 [\<lparr>title = ''User Not Found'',
                   description = ''Make sure username or ID is correct.'',
                   input_message_content = Text ''Make sure username or ID is correct.'',
                   reply_markup = []\<rparr>],
                cache_time = None\<rparr>)"
  using assms by (simp add: handle_wspr_query_def Let_def)

lemma handle_no_body:
  assumes "split1 q = [w, rest]" and "split1 rest = [target]"
    and "get_user_info (store_user_info st now u) target = Some d"
  shows "handle_wspr_query st now draw u q =
           (store_user_info st now u,
            Inr \<lparr>results =
                 [\<lparr>title = ''Type your message'',
                   description = ''You didn't type your message.'',
                   input_message_content = Text ''You didn't type your message.'',
                   reply_markup = []\<rparr>],
                cache_time = None\<rparr>)"
  using assms by (simp add: handle_wspr_query_def Let_def)

lemma handle_registers:
  assumes "split1 q = [w, rest]" and "split1 rest = [target, body]"
    and "get_user_info (store_user_info st now u) target = Some d"
  shows "handle_wspr_query st now draw u q =
           (fst (register (store_user_info st now u) draw (user_id d) (u_id u) body),
            Inr \<lparr>results =
                   [\<lparr>title = first_name d, description = body,
                     input_message_content = Secret_message_for (user_display d),
                     reply_markup =
                       [[Show_button (''show_'' @ str_int (generate_message_id draw)),
                         Delete_button (''del_'' @ str_int (generate_message_id draw))],
                        [New_message_button (''wspr '' @ target @ '' '')]]\<rparr>],
                 cache_time = Some 1\<rparr>)"
  using assms by (simp add: handle_wspr_query_def Let_def register_def)

lemma handle_one_card:
  "\<exists>a. snd (handle_wspr_query st now draw u q) = Inr a \<and> length (results a) = 1"
proof (cases "length (split1 q) < 2")
  case True
  then show ?thesis by (simp add: handle_no_target)
next
  case False
  then obtain w rest where q: "split1 q = [w, rest]"
    using split1_cases [of q] by auto
  from split1_second [OF q] obtain target
    where t: "split1 rest = [target] \<or> (\<exists>body. split1 rest = [target, body] \<and> body \<noteq> [])"
    by blast
  show ?thesis
  proof (cases "get_user_info (store_user_info st now u) target")
    case None
    with q t show ?thesis
      by (auto simp add: handle_unresolved)
  next
    case (Some d)
    with q t show ?thesis
      by (auto simp add: handle_no_body handle_registers)
  qed
qed

lemma handle_registration_only:
  assumes "whisper_messages (fst (handle_wspr_query st now draw u q)) \<noteq> whisper_messages st"
  shows "\<exists>w rest target body d.
           split1 q = [w, rest] \<and> split1 rest = [target, body] \<and> body \<noteq> []
           \<and> get_user_info (store_user_info st now u) target = Some d"
proof (cases "length (split1 q) < 2")
  case True
  with assms show ?thesis by (simp add: handle_no_target store_user_info_whispers)
next
  case False
  then obtain w rest where q: "split1 q = [w, rest]"
    using split1_cases [of q] by auto
  from split1_second [OF q] obtain target
    where t: "split1 rest = [target] \<or> (\<exists>body. split1 rest = [target, body] \<and> body \<noteq> [])"
    by blast
  show ?thesis
  proof (cases "get_user_info (store_user_info st now u) target")
    case None
    with q t assms show ?thesis
      by (auto simp add: handle_unresolved store_user_info_whispers)
  next
    case (Some d)
    with q t assms show ?thesis
      by (auto simp add: handle_no_body store_user_info_whispers)
  qed
qed

subsection \<open>Reveal\<close>

text \<open>
  C1. For a pending secret stored under an identifier with recipient \<open>r\<close>, a reveal by
  requester \<open>p\<close> answers with the stored body when \<open>p = r\<close> and with the fixed
  "not for you" notice, which does not depend on the body, when \<open>p \<noteq> r\<close>; when nothing
  is stored under the identifier it answers with the "expired or does not exist" notice.
\<close>

theorem reveal_outcomes:
  "(whisper_messages st i = Some (r, s, body) \<longrightarrow>
      snd (show_message_callback st i p) =
        (if p = r then [Answer body True] else [Answer ''This message is not for you.'' True]))
   \<and> (whisper_messages st i = None \<longrightarrow>
      snd (show_message_callback st i p) =
        [Answer ''This message has expired or does not exist.'' True])"
  by (simp add: show_message_callback_def)

theorem reveal_outcomes_witness:
  "whisper_messages (fst (register initial_state 0 42 7 ''hi'')) 10000000 = Some (42, 7, ''hi'')
   \<and> snd (show_message_callback (fst (register initial_state 0 42 7 ''hi'')) 10000000 42)
       = [Answer ''hi'' True]
   \<and> snd (show_message_callback (fst (register initial_state 0 42 7 ''hi'')) 10000000 7)
       = [Answer ''This message is not for you.'' True]
   \<and> whisper_messages (fst (register initial_state 0 42 7 ''hi'')) 5 = None
   \<and> snd (show_message_callback (fst (register initial_state 0 42 7 ''hi'')) 5 42)
       = [Answer ''This message has expired or does not exist.'' True]"
  using reveal_outcomes [of "fst (register initial_state 0 42 7 ''hi'')" 10000000 42 7 "''hi''" 42]
        reveal_outcomes [of "fst (register initial_state 0 42 7 ''hi'')" 10000000 42 7 "''hi''" 7]
        reveal_outcomes [of "fst (register initial_state 0 42 7 ''hi'')" 5 42 7 "''hi''" 42]
  by (simp add: register_def generate_message_id_def randint_def initial_state_def)

text \<open>
  C6. A reveal returns the state it was given, whoever asks and whatever the identifier;
  so does any sequence of reveals, and after any such sequence the recipient of a
  pending secret is still answered with the body as it was stored.
\<close>

theorem reveal_frame:
  "fst (show_message_callback st j q) = st
   \<and> foldl (\<lambda>s (j, q). fst (show_message_callback s j q)) st calls = st
   \<and> (whisper_messages st i = Some (r, s, body) \<longrightarrow>
        snd (show_message_callback
               (foldl (\<lambda>s (j, q). fst (show_message_callback s j q)) st calls) i r)
          = [Answer body True])"
proof (intro conjI impI)
  show "fst (show_message_callback st j q) = st"
    by (rule show_message_callback_state)
  show "foldl (\<lambda>s (j, q). fst (show_message_callback s j q)) st calls = st"
    by (rule reveals_keep_state)
  assume "whisper_messages st i = Some (r, s, body)"
  then show "snd (show_message_callback
               (foldl (\<lambda>s (j, q). fst (show_message_callback s j q)) st calls) i r)
          = [Answer body True]"
    by (simp only: reveals_keep_state) (simp add: show_message_callback_def)
qed

theorem reveal_frame_witness:
  "whisper_messages (fst (register initial_state 6 42 7 ''hi'')) 10000006 = Some (42, 7, ''hi'')
   \<and> snd (show_message_callback
            (foldl (\<lambda>s (j, q). fst (show_message_callback s j q))
               (fst (register initial_state 6 42 7 ''hi''))
               [(10000006, 42), (10000006, 7), (5, 42), (10000006, 42)])
            10000006 42)
        = [Answer ''hi'' True]"
proof -
  have h: "whisper_messages (fst (register initial_state 6 42 7 ''hi'')) 10000006
             = Some (42, 7, ''hi'')"
    by (simp add: register_def generate_message_id_def randint_def initial_state_def)
  show ?thesis
    using h reveal_frame [where st = "fst (register initial_state 6 42 7 ''hi'')"
                             and calls = "[(10000006, 42), (10000006, 7), (5, 42), (10000006, 42)]"
                             and i = 10000006 and r = 42 and s = 7 and body = "''hi''"]
    by blast
qed

subsection \<open>Delete\<close>

text \<open>
  C4. A delete of a pending entry by its sender removes the entry and answers
  "Message deleted." once: the same delete repeated at once answers "already deleted"
  and changes nothing, and a reveal by the recipient after the first delete answers
  "expired or does not exist".
\<close>

theorem delete_once:
  assumes "whisper_messages st i = Some (r, s, body)"
  shows "(case delete_message_callback st i s of (s1, a) \<Rightarrow>
          case delete_message_callback s1 i s of (s2, b) \<Rightarrow>
            a = [Answer ''Message deleted.'' True, Edit_message_deleted]
            \<and> whisper_messages s1 i = None
            \<and> b = [Answer ''This message has already been deleted.'' True]
            \<and> s2 = s1
            \<and> snd (show_message_callback s1 i r) =
                [Answer ''This message has expired or does not exist.'' True])"
  using assms by (simp add: show_message_callback_def delete_message_callback_def)

theorem delete_once_witness:
  "whisper_messages (fst (register initial_state 3 42 7 ''hi'')) 10000003 = Some (42, 7, ''hi'')
   \<and> snd (delete_message_callback (fst (register initial_state 3 42 7 ''hi'')) 10000003 7)
        = [Answer ''Message deleted.'' True, Edit_message_deleted]
   \<and> snd (delete_message_callback
            (fst (delete_message_callback (fst (register initial_state 3 42 7 ''hi'')) 10000003 7))
            10000003 7)
        = [Answer ''This message has already been deleted.'' True]
   \<and> snd (show_message_callback
            (fst (delete_message_callback (fst (register initial_state 3 42 7 ''hi'')) 10000003 7))
            10000003 42)
        = [Answer ''This message has expired or does not exist.'' True]"
proof -
  have h: "whisper_messages (fst (register initial_state 3 42 7 ''hi'')) 10000003
             = Some (42, 7, ''hi'')"
    by (simp add: register_def generate_message_id_def randint_def initial_state_def)
  show ?thesis
    using h delete_once [OF h] by (simp add: case_prod_beta)
qed

text \<open>
  C5. A delete of a pending entry by anyone but its sender answers "Only the sender can
  delete this message." and returns the state unchanged, so a reveal by the recipient
  afterwards still answers with the stored body.
\<close>

theorem delete_denied_keeps_entry:
  assumes "whisper_messages st i = Some (r, s, body)" and "p \<noteq> s"
  shows "delete_message_callback st i p =
           (st, [Answer ''Only the sender can delete this message.'' True])
         \<and> snd (show_message_callback (fst (delete_message_callback st i p)) i r) =
             [Answer body True]"
  using assms by (simp add: show_message_callback_def delete_message_callback_def)

theorem delete_denied_keeps_entry_witness:
  "whisper_messages (fst (register initial_state 4 42 7 ''hi'')) 10000004 = Some (42, 7, ''hi'')
   \<and> (99::int) \<noteq> 7
   \<and> delete_message_callback (fst (register initial_state 4 42 7 ''hi'')) 10000004 99 =
       (fst (register initial_state 4 42 7 ''hi''),
        [Answer ''Only the sender can delete this message.'' True])
   \<and> snd (show_message_callback
            (fst (delete_message_callback (fst (register initial_state 4 42 7 ''hi'')) 10000004 99))
            10000004 42)
        = [Answer ''hi'' True]"
proof -
  have h: "whisper_messages (fst (register initial_state 4 42 7 ''hi'')) 10000004
             = Some (42, 7, ''hi'')"
    by (simp add: register_def generate_message_id_def randint_def initial_state_def)
  have n: "(99::int) \<noteq> 7" by simp
  show ?thesis
    using h n delete_denied_keeps_entry [OF h n] by blast
qed

subsection \<open>Register\<close>

text \<open>
  C3. The scenario of the specification, run in order from any state and with any draw
  of the generator: after registering recipient 42, sender 7 and body "hi" under the
  identifier returned, a reveal by 42 answers "hi", a reveal by 7 is refused, a delete
  by 99 is refused, a delete by 7 succeeds, and a reveal by 42 then finds nothing.
\<close>

theorem concrete_scenario:
  "(case register st draw 42 7 ''hi'' of (s1, i) \<Rightarrow>
    case show_message_callback s1 i 42 of (s2, a) \<Rightarrow>
    case show_message_callback s2 i 7 of (s3, b) \<Rightarrow>
    case delete_message_callback s3 i 99 of (s4, c) \<Rightarrow>
    case delete_message_callback s4 i 7 of (s5, d) \<Rightarrow>
    case show_message_callback s5 i 42 of (s6, e) \<Rightarrow>
      a = [Answer ''hi'' True]
      \<and> b = [Answer ''This message is not for you.'' True]
      \<and> c = [Answer ''Only the sender can delete this message.'' True]
      \<and> d = [Answer ''Message deleted.'' True, Edit_message_deleted]
      \<and> e = [Answer ''This message has expired or does not exist.'' True])"
  by (simp add: register_def Let_def show_message_callback_def delete_message_callback_def)

text \<open>
  C2, as the code has it. A registration always succeeds and returns the identifier the
  generator drew, between 10000000 and 999999999. The identifier is not compared with
  the pending ones: the entry is stored under it, the entries under every other
  identifier stay, and no pending entry is overwritten when the drawn identifier is not
  pending. The statement of the specification fails when the generator draws a pending
  identifier, as the second theorem shows.
\<close>

theorem register_stores:
  "(case register st draw t s m of (st', i) \<Rightarrow>
      i = generate_message_id draw
      \<and> 10000000 \<le> i \<and> i \<le> 999999999
      \<and> whisper_messages st' i = Some (t, s, m)
      \<and> (\<forall>j. j \<noteq> i \<longrightarrow> whisper_messages st' j = whisper_messages st j)
      \<and> (whisper_messages st i = None \<longrightarrow>
           (\<forall>j \<in> dom (whisper_messages st). whisper_messages st' j = whisper_messages st j))
      \<and> users_collection st' = users_collection st)"
  using generate_message_id_range [of draw]
  by (auto simp add: register_def Let_def)

theorem register_stores_witness:
  "snd (register (fst (register initial_state 0 42 7 ''hi'')) 1 1 2 ''yo'') = 10000001
   \<and> whisper_messages (fst (register initial_state 0 42 7 ''hi'')) 10000001 = None
   \<and> (10000000::int) \<noteq> 10000001
   \<and> 10000000 \<in> dom (whisper_messages (fst (register initial_state 0 42 7 ''hi'')))
   \<and> whisper_messages (fst (register (fst (register initial_state 0 42 7 ''hi'')) 1 1 2 ''yo''))
       10000001 = Some (1, 2, ''yo'')
   \<and> whisper_messages (fst (register (fst (register initial_state 0 42 7 ''hi'')) 1 1 2 ''yo''))
       10000000 = Some (42, 7, ''hi'')"
  using register_stores [where st = "fst (register initial_state 0 42 7 ''hi'')"
                            and draw = 1 and t = 1 and s = 2 and m = "''yo''"]
  by (simp add: register_def generate_message_id_def randint_def initial_state_def)

theorem register_overwrites_counterexample:
  "snd (register (fst (register initial_state 0 42 7 ''hi'')) 0 1 2 ''yo'')
     \<in> dom (whisper_messages (fst (register initial_state 0 42 7 ''hi'')))
   \<and> whisper_messages (fst (register initial_state 0 42 7 ''hi'')) 10000000
       = Some (42, 7, ''hi'')
   \<and> whisper_messages (fst (register (fst (register initial_state 0 42 7 ''hi'')) 0 1 2 ''yo''))
       10000000 = Some (1, 2, ''yo'')"
  by (simp add: register_def generate_message_id_def randint_def initial_state_def)

subsection \<open>Identifiers and action tokens\<close>

text \<open>
  C10. Every identifier the generator produces lies between 10000000 and 999999999,
  both included. For every identifier \<open>i\<close> in that range the token \<^verbatim>\<open>show_<i>\<close> is
  matched by the reveal pattern and \<^verbatim>\<open>del_<i>\<close> by the delete pattern, the matched
  digits parse back to \<open>i\<close>, and a button press carrying the token runs the reveal or
  the delete handler on \<open>i\<close>.
\<close>

theorem identifier_tokens_roundtrip:
  "10000000 \<le> generate_message_id draw \<and> generate_message_id draw \<le> 999999999
   \<and> (10000000 \<le> i \<and> i \<le> 999999999 \<longrightarrow>
        show_regex (''show_'' @ str_int i) = Some (str_int i)
        \<and> del_regex (''del_'' @ str_int i) = Some (str_int i)
        \<and> py_int (str_int i) = Some i
        \<and> on_callback_query st (''show_'' @ str_int i) p = Inr (show_message_callback st i p)
        \<and> on_callback_query st (''del_'' @ str_int i) p = Inr (delete_message_callback st i p))"
proof (intro conjI impI)
  show "10000000 \<le> generate_message_id draw" "generate_message_id draw \<le> 999999999"
    using generate_message_id_range [of draw] by simp_all
next
  assume range: "10000000 \<le> i \<and> i \<le> 999999999"
  then have s: "str_int i = str_nat (nat i)" and n: "int (nat i) = i"
    by (simp_all add: str_int_def)
  show "show_regex (''show_'' @ str_int i) = Some (str_int i)"
    unfolding s by (rule show_regex_token)
  show "del_regex (''del_'' @ str_int i) = Some (str_int i)"
    unfolding s by (rule del_regex_token)
  show "py_int (str_int i) = Some i"
    unfolding s using py_int_str_nat [of "nat i"] n by simp
  have a: "show_regex (''show_'' @ str_nat (nat i)) = Some (str_nat (nat i))"
    by (rule show_regex_token)
  have b: "show_regex (''del_'' @ str_nat (nat i)) = None"
    by (rule show_regex_del_token)
  have c: "del_regex (''del_'' @ str_nat (nat i)) = Some (str_nat (nat i))"
    by (rule del_regex_token)
  have d: "py_int (str_nat (nat i)) = Some i"
    using py_int_str_nat [of "nat i"] n by simp
  show "on_callback_query st (''show_'' @ str_int i) p = Inr (show_message_callback st i p)"
    unfolding s on_callback_query_def by (simp only: a d option.case)
  show "on_callback_query st (''del_'' @ str_int i) p = Inr (delete_message_callback st i p)"
    unfolding s on_callback_query_def by (simp only: b c d option.case)
qed

theorem identifier_tokens_roundtrip_witness:
  "(10000000::int) \<le> 123456789 \<and> (123456789::int) \<le> 999999999
   \<and> str_int 123456789 = ''123456789''
   \<and> show_regex ''show_123456789'' = Some ''123456789''
   \<and> del_regex ''del_123456789'' = Some ''123456789''
   \<and> py_int ''123456789'' = Some 123456789
   \<and> on_callback_query initial_state ''show_123456789'' 42
        = Inr (show_message_callback initial_state 123456789 42)"
proof -
  have s: "str_int 123456789 = ''123456789''"
    by (simp add: str_int_def str_nat.simps digit_chars)
  show ?thesis
    using identifier_tokens_roundtrip [where i = 123456789 and st = initial_state and p = 42 and draw = 0]
    unfolding s by simp
qed

subsection \<open>User directory: resolve\<close>

text \<open>
  C7, as the code has it. Every non-empty input made of digits only is read as an
  identifier: a string of decimal digits, leading zeros included, resolves to the first
  profile stored under its decimal value, so the decimal rendering of an identifier
  resolves to the profile under it, and a digit string with a character that \<^verbatim>\<open>int\<close>
  rejects resolves to nothing. Every other input is a handle, looked up after one
  leading \<^verbatim>\<open>@\<close> is removed, so a handle with and without the marker resolves alike.
  The marker is removed only on that path: \<^verbatim>\<open>@\<close> followed by digits is looked up as a
  handle made of those digits, not as an identifier. A result is a stored profile or
  nothing; no error leaves the function. The second theorem shows the input \<^verbatim>\<open>@123\<close>
  not resolving to the profile stored under 123.
\<close>

theorem resolve_interpretation:
  "(0 \<le> n \<longrightarrow>
      get_user_info st (str_int n) = find (\<lambda>d. user_id d = n) (users_collection st))
   \<and> (isdigit s \<and> py_int s = None \<longrightarrow> get_user_info st s = None)
   \<and> (\<not> isdigit h \<and> take 1 h \<noteq> ''@'' \<longrightarrow>
        get_user_info st h = find (\<lambda>d. username d = Some h) (users_collection st)
        \<and> get_user_info st (CHR ''@'' # h) = get_user_info st h)
   \<and> get_user_info st (CHR ''@'' # t) = find (\<lambda>d. username d = Some t) (users_collection st)
   \<and> (get_user_info st x = Some d \<longrightarrow> d \<in> set (users_collection st))
   \<and> (isdigit z \<and> py_int z = Some m \<longrightarrow>
        get_user_info st z = find (\<lambda>d. user_id d = m) (users_collection st))
   \<and> (y \<noteq> [] \<and> list_all is_decimal y \<longrightarrow>
        get_user_info st y =
          find (\<lambda>d. user_id d = foldl (\<lambda>acc c. 10 * acc + digit_value c) 0 y)
            (users_collection st))
   \<and> (isdigit v \<and> \<not> list_all is_decimal v \<longrightarrow> get_user_info st v = None)"
proof (intro conjI impI)
  assume "0 \<le> n"
  then have "str_int n = str_nat (nat n)" and "int (nat n) = n"
    by (simp_all add: str_int_def)
  then show "get_user_info st (str_int n) = find (\<lambda>d. user_id d = n) (users_collection st)"
    using get_user_info_digits [OF isdigit_str_nat py_int_str_nat, of st "nat n"] by simp
next
  assume "isdigit s \<and> py_int s = None"
  then show "get_user_info st s = None" by (simp add: get_user_info_def)
next
  assume a: "\<not> isdigit h \<and> take 1 h \<noteq> ''@''"
  then show "get_user_info st h = find (\<lambda>d. username d = Some h) (users_collection st)"
    by (simp add: get_user_info_name)
  with a show "get_user_info st (CHR ''@'' # h) = get_user_info st h"
    by (simp only: get_user_info_at)
next
  show "get_user_info st (CHR ''@'' # t) = find (\<lambda>d. username d = Some t) (users_collection st)"
    by (rule get_user_info_at)
next
  assume "get_user_info st x = Some d"
  then show "d \<in> set (users_collection st)" by (rule get_user_info_stored)
next
  assume "isdigit z \<and> py_int z = Some m"
  then show "get_user_info st z = find (\<lambda>d. user_id d = m) (users_collection st)"
    by (simp add: get_user_info_digits)
next
  assume a: "y \<noteq> [] \<and> list_all is_decimal y"
  then have "isdigit y" by (simp add: isdigit_decimal)
  moreover from a
  have "py_int y = Some (foldl (\<lambda>acc c. 10 * acc + digit_value c) 0 y)"
    by (simp add: py_int_def)
  ultimately show "get_user_info st y =
          find (\<lambda>d. user_id d = foldl (\<lambda>acc c. 10 * acc + digit_value c) 0 y)
            (users_collection st)"
    by (rule get_user_info_digits)
next
  assume "isdigit v \<and> \<not> list_all is_decimal v"
  then show "get_user_info st v = None"
    by (simp add: get_user_info_def py_int_def)
qed

theorem resolve_interpretation_witness:
  "(0::int) \<le> 123
   \<and> get_user_info
        (initial_state\<lparr>users_collection :=
           [\<lparr>user_id = 42, first_name = ''Alice'', last_name = None, last_seen = 0,
              username = Some ''alice''\<rparr>,
            \<lparr>user_id = 123, first_name = ''Carol'', last_name = None, last_seen = 0,
              username = None\<rparr>]\<rparr>) ''123''
       = Some \<lparr>user_id = 123, first_name = ''Carol'', last_name = None, last_seen = 0,
               username = None\<rparr>
   \<and> isdigit [CHR 0xB2] \<and> py_int [CHR 0xB2] = None \<and> \<not> list_all is_decimal [CHR 0xB2]
   \<and> get_user_info
        (initial_state\<lparr>users_collection :=
           [\<lparr>user_id = 42, first_name = ''Alice'', last_name = None, last_seen = 0,
              username = Some ''alice''\<rparr>,
            \<lparr>user_id = 123, first_name = ''Carol'', last_name = None, last_seen = 0,
              username = None\<rparr>]\<rparr>) [CHR 0xB2]
       = None
   \<and> \<not> isdigit ''alice'' \<and> take 1 ''alice'' \<noteq> ''@''
   \<and> get_user_info
        (initial_state\<lparr>users_collection :=
           [\<lparr>user_id = 42, first_name = ''Alice'', last_name = None, last_seen = 0,
              username = Some ''alice''\<rparr>,
            \<lparr>user_id = 123, first_name = ''Carol'', last_name = None, last_seen = 0,
              username = None\<rparr>]\<rparr>) ''@alice''
       = Some \<lparr>user_id = 42, first_name = ''Alice'', last_name = None, last_seen = 0,
               username = Some ''alice''\<rparr>
   \<and> get_user_info
        (initial_state\<lparr>users_collection :=
           [\<lparr>user_id = 42, first_name = ''Alice'', last_name = None, last_seen = 0,
              username = Some ''alice''\<rparr>,
            \<lparr>user_id = 123, first_name = ''Carol'', last_name = None, last_seen = 0,
              username = None\<rparr>]\<rparr>) ''alice''
       = Some \<lparr>user_id = 42, first_name = ''Alice'', last_name = None, last_seen = 0,
               username = Some ''alice''\<rparr>
   \<and> \<lparr>user_id = 42, first_name = ''Alice'', last_name = None, last_seen = 0,
               username = Some ''alice''\<rparr>
       \<in> set (users_collection
        (initial_state\<lparr>users_collection :=
           [\<lparr>user_id = 42, first_name = ''Alice'', last_name = None, last_seen = 0,
              username = Some ''alice''\<rparr>,
            \<lparr>user_id = 123, first_name = ''Carol'', last_name = None, last_seen = 0,
              username = None\<rparr>]\<rparr>))
   \<and> isdigit ''0123'' \<and> py_int ''0123'' = Some 123
   \<and> ''0123'' \<noteq> [] \<and> list_all is_decimal ''0123''
   \<and> foldl (\<lambda>acc c. 10 * acc + digit_value c) 0 ''0123'' = 123
   \<and> get_user_info
        (initial_state\<lparr>users_collection :=
           [\<lparr>user_id = 42, first_name = ''Alice'', last_name = None, last_seen = 0,
              username = Some ''alice''\<rparr>,
            \<lparr>user_id = 123, first_name = ''Carol'', last_name = None, last_seen = 0,
              username = None\<rparr>]\<rparr>) ''0123''
       = Some \<lparr>user_id = 123, first_name = ''Carol'', last_name = None, last_seen = 0,
               username = None\<rparr>"
proof -
  let ?st = "(initial_state\<lparr>users_collection :=
           [\<lparr>user_id = 42, first_name = ''Alice'', last_name = None, last_seen = 0,
              username = Some ''alice''\<rparr>,
            \<lparr>user_id = 123, first_name = ''Carol'', last_name = None, last_seen = 0,
              username = None\<rparr>]\<rparr>)"
  let ?alice = "\<lparr>user_id = 42, first_name = ''Alice'', last_name = None, last_seen = 0,
               username = Some ''alice''\<rparr>"
  let ?carol = "\<lparr>user_id = 123, first_name = ''Carol'', last_name = None, last_seen = 0,
               username = None\<rparr>"
  have s: "str_int 123 = ''123''"
    by (simp add: str_int_def str_nat.simps digit_chars)
  have sup: "isdigit [CHR 0xB2] \<and> py_int [CHR 0xB2] = None \<and> \<not> list_all is_decimal [CHR 0xB2]"
    by (simp add: isdigit_def isdigit_char_def py_int_def is_decimal_def)
  have nm: "\<not> isdigit ''alice'' \<and> take 1 ''alice'' \<noteq> ''@''"
    by (simp add: isdigit_def isdigit_char_def is_decimal_def)
  have z: "isdigit ''0123'' \<and> py_int ''0123'' = Some 123"
    by (simp add: isdigit_def isdigit_char_def py_int_def is_decimal_def digit_value_def)
  have y: "''0123'' \<noteq> [] \<and> list_all is_decimal ''0123''"
    by (simp add: is_decimal_def)
  have v: "foldl (\<lambda>acc c. 10 * acc + digit_value c) 0 ''0123'' = 123"
    by (simp add: digit_value_def)
  have f1: "find (\<lambda>d. user_id d = 123) (users_collection ?st) = Some ?carol"
    by (simp add: initial_state_def)
  have f2: "find (\<lambda>d. username d = Some ''alice'') (users_collection ?st) = Some ?alice"
    by (simp add: initial_state_def)
  note r = resolve_interpretation
        [where n = 123 and s = "[CHR 0xB2]" and h = "''alice''" and t = "''alice''"
           and x = "''alice''" and d = ?alice and z = "''0123''" and m = 123
           and y = "''0123''" and v = "[CHR 0xB2]" and st = ?st]
  have a1: "get_user_info ?st ''123'' = Some ?carol"
    using r f1 unfolding s by simp
  have a2: "get_user_info ?st [CHR 0xB2] = None"
    using r sup by blast
  have a3: "get_user_info ?st ''alice'' = Some ?alice"
    using r nm f2 by simp
  have a4: "get_user_info ?st ''@alice'' = Some ?alice"
    using r nm a3 by simp
  have a5: "?alice \<in> set (users_collection ?st)"
    using r a3 by blast
  have a6: "get_user_info ?st ''0123'' = Some ?carol"
    using r z f1 by simp
  show ?thesis
    using sup nm z y v a1 a2 a3 a4 a5 a6 by (simp only: simp_thms)
qed

theorem resolve_marker_digits_counterexample:
  "get_user_info
     (initial_state\<lparr>users_collection :=
        [\<lparr>user_id = 123, first_name = ''Carol'', last_name = None, last_seen = 0,
           username = None\<rparr>]\<rparr>) ''123''
     = Some \<lparr>user_id = 123, first_name = ''Carol'', last_name = None, last_seen = 0,
             username = None\<rparr>
   \<and> get_user_info
       (initial_state\<lparr>users_collection :=
          [\<lparr>user_id = 123, first_name = ''Carol'', last_name = None, last_seen = 0,
             username = None\<rparr>]\<rparr>) ''@123''
     = None"
  by (simp add: get_user_info_def isdigit_def isdigit_char_def is_decimal_def py_int_def
        digit_value_def initial_state_def)

subsection \<open>User directory: upsert\<close>

text \<open>
  C8, as the code has it. Storing the same user twice at the same clock reading leaves
  the state that storing it once leaves. After a store, the profile found under the
  user's identifier has the user's identifier, names and the clock reading, and the
  user's handle when the user has one; when the user has none, the handle stored before
  under that identifier, if any, stays, and a newly inserted profile has none. Profiles
  under other identifiers are found as before. The second theorem shows a handle that
  the user dropped still stored, and still resolving, after the store.
\<close>

theorem upsert_sets_fields:
  "store_user_info (store_user_info st now u) now u = store_user_info st now u
   \<and> find (\<lambda>d. user_id d = u_id u) (users_collection (store_user_info st now u)) =
       Some \<lparr>user_id = u_id u, first_name = u_first_name u, last_name = u_last_name u,
             last_seen = now,
             username =
               (case given_username u of
                  Some name \<Rightarrow> Some name
                | None \<Rightarrow>
                    (case find (\<lambda>d. user_id d = u_id u) (users_collection st) of
                       None \<Rightarrow> None
                     | Some d \<Rightarrow> username d))\<rparr>
   \<and> (j \<noteq> u_id u \<longrightarrow>
        find (\<lambda>d. user_id d = j) (users_collection (store_user_info st now u)) =
          find (\<lambda>d. user_id d = j) (users_collection st))"
proof (intro conjI impI)
  show "store_user_info (store_user_info st now u) now u = store_user_info st now u"
    by (rule store_user_info_twice)
next
  show "find (\<lambda>d. user_id d = u_id u) (users_collection (store_user_info st now u)) =
       Some \<lparr>user_id = u_id u, first_name = u_first_name u, last_name = u_last_name u,
             last_seen = now,
             username =
               (case given_username u of
                  Some name \<Rightarrow> Some name
                | None \<Rightarrow>
                    (case find (\<lambda>d. user_id d = u_id u) (users_collection st) of
                       None \<Rightarrow> None
                     | Some d \<Rightarrow> username d))\<rparr>"
    unfolding store_user_info_users
    by (subst find_upsert_same) (simp_all split: option.split)
next
  assume "j \<noteq> u_id u"
  then show "find (\<lambda>d. user_id d = j) (users_collection (store_user_info st now u)) =
          find (\<lambda>d. user_id d = j) (users_collection st)"
    unfolding store_user_info_users
    by (intro find_upsert_other) simp_all
qed

theorem upsert_sets_fields_witness:
  "(7::int) \<noteq> 42
   \<and> find (\<lambda>d. user_id d = 42)
       (users_collection
          (store_user_info
             (initial_state\<lparr>users_collection :=
                [\<lparr>user_id = 7, first_name = ''Sam'', last_name = None, last_seen = 1,
                   username = None\<rparr>,
                 \<lparr>user_id = 42, first_name = ''Alice'', last_name = None, last_seen = 2,
                   username = Some ''alice''\<rparr>]\<rparr>)
             9 \<lparr>u_id = 42, u_first_name = ''Al'', u_last_name = Some ''Ice'',
                u_username = Some ''al''\<rparr>))
       = Some \<lparr>user_id = 42, first_name = ''Al'', last_name = Some ''Ice'', last_seen = 9,
               username = Some ''al''\<rparr>
   \<and> find (\<lambda>d. user_id d = 7)
       (users_collection
          (store_user_info
             (initial_state\<lparr>users_collection :=
                [\<lparr>user_id = 7, first_name = ''Sam'', last_name = None, last_seen = 1,
                   username = None\<rparr>,
                 \<lparr>user_id = 42, first_name = ''Alice'', last_name = None, last_seen = 2,
                   username = Some ''alice''\<rparr>]\<rparr>)
             9 \<lparr>u_id = 42, u_first_name = ''Al'', u_last_name = Some ''Ice'',
                u_username = Some ''al''\<rparr>))
       = Some \<lparr>user_id = 7, first_name = ''Sam'', last_name = None, last_seen = 1,
               username = None\<rparr>"
  using upsert_sets_fields
    [where j = 7 and now = 9
       and u = "\<lparr>u_id = 42, u_first_name = ''Al'', u_last_name = Some ''Ice'',
                  u_username = Some ''al''\<rparr>"
       and st = "initial_state\<lparr>users_collection :=
                [\<lparr>user_id = 7, first_name = ''Sam'', last_name = None, last_seen = 1,
                   username = None\<rparr>,
                 \<lparr>user_id = 42, first_name = ''Alice'', last_name = None, last_seen = 2,
                   username = Some ''alice''\<rparr>]\<rparr>"]
  by (simp add: given_username_def initial_state_def)

theorem upsert_keeps_dropped_handle_counterexample:
  "given_username \<lparr>u_id = 42, u_first_name = ''Alice'', u_last_name = None,
                   u_username = None\<rparr> = None
   \<and> find (\<lambda>d. user_id d = 42)
       (users_collection
          (store_user_info
             (initial_state\<lparr>users_collection :=
                [\<lparr>user_id = 42, first_name = ''Alice'', last_name = None, last_seen = 2,
                   username = Some ''alice''\<rparr>]\<rparr>)
             9 \<lparr>u_id = 42, u_first_name = ''Alice'', u_last_name = None,
                u_username = None\<rparr>))
       = Some \<lparr>user_id = 42, first_name = ''Alice'', last_name = None, last_seen = 9,
               username = Some ''alice''\<rparr>
   \<and> get_user_info
       (store_user_info
          (initial_state\<lparr>users_collection :=
             [\<lparr>user_id = 42, first_name = ''Alice'', last_name = None, last_seen = 2,
                username = Some ''alice''\<rparr>]\<rparr>)
          9 \<lparr>u_id = 42, u_first_name = ''Alice'', u_last_name = None,
             u_username = None\<rparr>) ''alice''
       = Some \<lparr>user_id = 42, first_name = ''Alice'', last_name = None, last_seen = 9,
               username = Some ''alice''\<rparr>"
  by (simp add: store_user_info_def given_username_def initial_state_def Let_def
        get_user_info_def isdigit_def isdigit_char_def is_decimal_def)

subsection \<open>The whisper-compose inline query\<close>

text \<open>
  C9. The handler answers every query with exactly one card and raises nothing. A query
  without a target is answered with the card titled "Give Username" that says no
  username or ID was given, a query whose target does not resolve with the card "User
  Not Found" that asks to check the username or ID, and a query whose target resolves
  but has no message after it with the card "Type your message" that says no message
  was typed; each of these cards is given below with its title, description and text,
  and in these three cases no whisper is stored. A query with a target that resolves
  and a message after it, which is then not empty, stores the whisper and is answered
  with the card carrying the two action tokens. The stored whispers change only in that
  last case. The target is resolved in the directory as it is after the sender's own
  profile has been stored.
\<close>

theorem compose_answers:
  "(\<exists>a. snd (handle_wspr_query st now draw u q) = Inr a \<and> length (results a) = 1)
   \<and> (length (split1 q) < 2 \<longrightarrow>
        handle_wspr_query st now draw u q =
          (store_user_info st now u,
           Inr \<lparr>results =
                [\<lparr>title = ''Give Username'',
                  description = ''You didn't type a username or ID.'',
                  input_message_content = Text ''You didn't specify a username or ID.'',
                  reply_markup = []\<rparr>],
               cache_time = None\<rparr>))
   \<and> (split1 q = [w, rest] \<and> split1 rest = target # after
        \<and> get_user_info (store_user_info st now u) target = None \<longrightarrow>
        handle_wspr_query st now draw u q =
          (store_user_info st now u,
           Inr \<lparr>results =
                [\<lparr>title = ''User Not Found'',
                  description = ''Make sure username or ID is correct.'',
                  input_message_content = Text ''Make sure username or ID is correct.'',
                  reply_markup = []\<rparr>],
               cache_time = None\<rparr>))
   \<and> (split1 q = [w, rest] \<and> split1 rest = [target]
        \<and> get_user_info (store_user_info st now u) target = Some d \<longrightarrow>
        handle_wspr_query st now draw u q =
          (store_user_info st now u,
           Inr \<lparr>results =
                [\<lparr>title = ''Type your message'',
                  description = ''You didn't type your message.'',
                  input_message_content = Text ''You didn't type your message.'',
                  reply_markup = []\<rparr>],
               cache_time = None\<rparr>))
   \<and> (split1 q = [w, rest] \<and> split1 rest = [target, body]
        \<and> get_user_info (store_user_info st now u) target = Some d \<longrightarrow>
        body \<noteq> []
        \<and> handle_wspr_query st now draw u q =
          (fst (register (store_user_info st now u) draw (user_id d) (u_id u) body),
           Inr \<lparr>results =
                  [\<lparr>title = first_name d, description = body,
                    input_message_content = Secret_message_for (user_display d),
                    reply_markup =
                      [[Show_button (''show_'' @ str_int (generate_message_id draw)),
                        Delete_button (''del_'' @ str_int (generate_message_id draw))],
                       [New_message_button (''wspr '' @ target @ '' '')]]\<rparr>],
                cache_time = Some 1\<rparr>))
   \<and> (whisper_messages (fst (handle_wspr_query st now draw u q)) \<noteq> whisper_messages st \<longrightarrow>
        (\<exists>w rest target body d.
           split1 q = [w, rest] \<and> split1 rest = [target, body] \<and> body \<noteq> []
           \<and> get_user_info (store_user_info st now u) target = Some d))"
proof (intro conjI impI)
  show "\<exists>a. snd (handle_wspr_query st now draw u q) = Inr a \<and> length (results a) = 1"
    by (rule handle_one_card)
next
  assume "length (split1 q) < 2"
  then show "handle_wspr_query st now draw u q =
          (store_user_info st now u,
           Inr \<lparr>results =
                [\<lparr>title = ''Give Username'',
                  description = ''You didn't type a username or ID.'',
                  input_message_content = Text ''You didn't specify a username or ID.'',
                  reply_markup = []\<rparr>],
               cache_time = None\<rparr>)"
    by (rule handle_no_target)
next
  assume "split1 q = [w, rest] \<and> split1 rest = target # after
        \<and> get_user_info (store_user_info st now u) target = None"
  then show "handle_wspr_query st now draw u q =
          (store_user_info st now u,
           Inr \<lparr>results =
                [\<lparr>title = ''User Not Found'',
                  description = ''Make sure username or ID is correct.'',
                  input_message_content = Text ''Make sure username or ID is correct.'',
                  reply_markup = []\<rparr>],
               cache_time = None\<rparr>)"
    by (blast intro: handle_unresolved)
next
  assume "split1 q = [w, rest] \<and> split1 rest = [target]
        \<and> get_user_info (store_user_info st now u) target = Some d"
  then show "handle_wspr_query st now draw u q =
          (store_user_info st now u,
           Inr \<lparr>results =
                [\<lparr>title = ''Type your message'',
                  description = ''You didn't type your message.'',
                  input_message_content = Text ''You didn't type your message.'',
                  reply_markup = []\<rparr>],
               cache_time = None\<rparr>)"
    by (blast intro: handle_no_body)
next
  assume a: "split1 q = [w, rest] \<and> split1 rest = [target, body]
        \<and> get_user_info (store_user_info st now u) target = Some d"
  then show "body \<noteq> []"
    using split1_second [of q w rest] by auto
  from a show "handle_wspr_query st now draw u q =
          (fst (register (store_user_info st now u) draw (user_id d) (u_id u) body),
           Inr \<lparr>results =
                  [\<lparr>title = first_name d, description = body,
                    input_message_content = Secret_message_for (user_display d),
                    reply_markup =
                      [[Show_button (''show_'' @ str_int (generate_message_id draw)),
                        Delete_button (''del_'' @ str_int (generate_message_id draw))],
                       [New_message_button (''wspr '' @ target @ '' '')]]\<rparr>],
                cache_time = Some 1\<rparr>)"
    by (blast intro: handle_registers)
next
  assume "whisper_messages (fst (handle_wspr_query st now draw u q)) \<noteq> whisper_messages st"
  then show "\<exists>w rest target body d.
           split1 q = [w, rest] \<and> split1 rest = [target, body] \<and> body \<noteq> []
           \<and> get_user_info (store_user_info st now u) target = Some d"
    by (rule handle_registration_only)
qed

theorem compose_answers_witness:
  "length (split1 ''wspr'') < 2
   \<and> snd (handle_wspr_query
          (initial_state\<lparr>users_collection :=
            [\<lparr>user_id = 42, first_name = ''Alice'', last_name = None, last_seen = 2,
               username = Some ''alice''\<rparr>]\<rparr>)
          9 0 \<lparr>u_id = 7, u_first_name = ''Sam'', u_last_name = None, u_username = None\<rparr> ''wspr'') =
       Inr \<lparr>results =
            [\<lparr>title = ''Give Username'',
              description = ''You didn't type a username or ID.'',
              input_message_content = Text ''You didn't specify a username or ID.'',
              reply_markup = []\<rparr>],
           cache_time = None\<rparr>
   \<and> split1 ''wspr nobody hi'' = [''wspr'', ''nobody hi'']
   \<and> split1 ''nobody hi'' = [''nobody'', ''hi'']
   \<and> get_user_info
        (store_user_info
          (initial_state\<lparr>users_collection :=
            [\<lparr>user_id = 42, first_name = ''Alice'', last_name = None, last_seen = 2,
               username = Some ''alice''\<rparr>]\<rparr>)
          9 \<lparr>u_id = 7, u_first_name = ''Sam'', u_last_name = None, u_username = None\<rparr>) ''nobody'' = None
   \<and> snd (handle_wspr_query
          (initial_state\<lparr>users_collection :=
            [\<lparr>user_id = 42, first_name = ''Alice'', last_name = None, last_seen = 2,
               username = Some ''alice''\<rparr>]\<rparr>)
          9 0 \<lparr>u_id = 7, u_first_name = ''Sam'', u_last_name = None, u_username = None\<rparr> ''wspr nobody hi'') =
       Inr \<lparr>results =
            [\<lparr>title = ''User Not Found'',
              description = ''Make sure username or ID is correct.'',
              input_message_content = Text ''Make sure username or ID is correct.'',
              reply_markup = []\<rparr>],
           cache_time = None\<rparr>
   \<and> split1 ''wspr 42 '' = [''wspr'', ''42 '']
   \<and> split1 ''42 '' = [''42'']
   \<and> get_user_info
        (store_user_info
          (initial_state\<lparr>users_collection :=
            [\<lparr>user_id = 42, first_name = ''Alice'', last_name = None, last_seen = 2,
               username = Some ''alice''\<rparr>]\<rparr>)
          9 \<lparr>u_id = 7, u_first_name = ''Sam'', u_last_name = None, u_username = None\<rparr>) ''42'' = Some \<lparr>user_id = 42, first_name = ''Alice'', last_name = None, last_seen = 2,
             username = Some ''alice''\<rparr>
   \<and> snd (handle_wspr_query
          (initial_state\<lparr>users_collection :=
            [\<lparr>user_id = 42, first_name = ''Alice'', last_name = None, last_seen = 2,
               username = Some ''alice''\<rparr>]\<rparr>)
          9 0 \<lparr>u_id = 7, u_first_name = ''Sam'', u_last_name = None, u_username = None\<rparr> ''wspr 42 '') =
       Inr \<lparr>results =
            [\<lparr>title = ''Type your message'',
              description = ''You didn't type your message.'',
              input_message_content = Text ''You didn't type your message.'',
              reply_markup = []\<rparr>],
           cache_time = None\<rparr>
   \<and> split1 ''wspr 42 hi'' = [''wspr'', ''42 hi'']
   \<and> split1 ''42 hi'' = [''42'', ''hi'']
   \<and> whisper_messages (fst (handle_wspr_query
          (initial_state\<lparr>users_collection :=
            [\<lparr>user_id = 42, first_name = ''Alice'', last_name = None, last_seen = 2,
               username = Some ''alice''\<rparr>]\<rparr>)
          9 0 \<lparr>u_id = 7, u_first_name = ''Sam'', u_last_name = None, u_username = None\<rparr> ''wspr 42 hi'')) 10000000 = Some (42, 7, ''hi'')
   \<and> whisper_messages (fst (handle_wspr_query
          (initial_state\<lparr>users_collection :=
            [\<lparr>user_id = 42, first_name = ''Alice'', last_name = None, last_seen = 2,
               username = Some ''alice''\<rparr>]\<rparr>)
          9 0 \<lparr>u_id = 7, u_first_name = ''Sam'', u_last_name = None, u_username = None\<rparr> ''wspr 42 hi'')) \<noteq>
       whisper_messages
         (initial_state\<lparr>users_collection :=
            [\<lparr>user_id = 42, first_name = ''Alice'', last_name = None, last_seen = 2,
               username = Some ''alice''\<rparr>]\<rparr>)"
proof -
  let ?st = "(initial_state\<lparr>users_collection :=
            [\<lparr>user_id = 42, first_name = ''Alice'', last_name = None, last_seen = 2,
               username = Some ''alice''\<rparr>]\<rparr>)"
  let ?u = "\<lparr>u_id = 7, u_first_name = ''Sam'', u_last_name = None, u_username = None\<rparr>"
  let ?alice = "\<lparr>user_id = 42, first_name = ''Alice'', last_name = None, last_seen = 2,
             username = Some ''alice''\<rparr>"
  have s1: "length (split1 ''wspr'') < 2"
    by (simp add: split1_def Let_def isspace_char_def)
  have s2: "split1 ''wspr nobody hi'' = [''wspr'', ''nobody hi'']"
    by (simp add: split1_def Let_def isspace_char_def)
  have s3: "split1 ''nobody hi'' = [''nobody'', ''hi'']"
    by (simp add: split1_def Let_def isspace_char_def)
  have s4: "split1 ''wspr 42 '' = [''wspr'', ''42 '']"
    by (simp add: split1_def Let_def isspace_char_def)
  have s5: "split1 ''42 '' = [''42'']"
    by (simp add: split1_def Let_def isspace_char_def)
  have s6: "split1 ''wspr 42 hi'' = [''wspr'', ''42 hi'']"
    by (simp add: split1_def Let_def isspace_char_def)
  have s7: "split1 ''42 hi'' = [''42'', ''hi'']"
    by (simp add: split1_def Let_def isspace_char_def)
  have users: "users_collection (store_user_info ?st 9 ?u) =
                 [?alice,
                  \<lparr>user_id = 7, first_name = ''Sam'', last_name = None, last_seen = 9,
                     username = None\<rparr>]"
    by (simp add: store_user_info_def given_username_def initial_state_def Let_def)
  have g1: "get_user_info (store_user_info ?st 9 ?u) ''nobody'' = None"
    by (simp add: get_user_info_def users isdigit_def isdigit_char_def is_decimal_def)
  have g2: "get_user_info (store_user_info ?st 9 ?u) ''42'' = Some ?alice"
    by (simp add: get_user_info_def users isdigit_def isdigit_char_def is_decimal_def
          py_int_def digit_value_def)
  have a: "snd (handle_wspr_query ?st 9 0 ?u ''wspr'') =
       Inr \<lparr>results =
            [\<lparr>title = ''Give Username'',
              description = ''You didn't type a username or ID.'',
              input_message_content = Text ''You didn't specify a username or ID.'',
              reply_markup = []\<rparr>],
           cache_time = None\<rparr>"
    using s1 compose_answers [where st = ?st and now = 9 and draw = 0 and u = ?u
                                 and q = "''wspr''"]
    by simp
  have b: "snd (handle_wspr_query ?st 9 0 ?u ''wspr nobody hi'') =
       Inr \<lparr>results =
            [\<lparr>title = ''User Not Found'',
              description = ''Make sure username or ID is correct.'',
              input_message_content = Text ''Make sure username or ID is correct.'',
              reply_markup = []\<rparr>],
           cache_time = None\<rparr>"
    using s2 s3 g1
      compose_answers [where st = ?st and now = 9 and draw = 0 and u = ?u
                         and q = "''wspr nobody hi''" and w = "''wspr''"
                         and rest = "''nobody hi''" and target = "''nobody''"
                         and after = "[''hi'']"]
    by simp
  have c: "snd (handle_wspr_query ?st 9 0 ?u ''wspr 42 '') =
       Inr \<lparr>results =
            [\<lparr>title = ''Type your message'',
              description = ''You didn't type your message.'',
              input_message_content = Text ''You didn't type your message.'',
              reply_markup = []\<rparr>],
           cache_time = None\<rparr>"
    using s4 s5 g2
      compose_answers [where st = ?st and now = 9 and draw = 0 and u = ?u
                         and q = "''wspr 42 ''" and w = "''wspr''"
                         and rest = "''42 ''" and target = "''42''" and d = ?alice]
    by simp
  have d: "fst (handle_wspr_query ?st 9 0 ?u ''wspr 42 hi'') =
             fst (register (store_user_info ?st 9 ?u) 0 42 7 ''hi'')"
    using s6 s7 g2
      compose_answers [where st = ?st and now = 9 and draw = 0 and u = ?u
                         and q = "''wspr 42 hi''" and w = "''wspr''"
                         and rest = "''42 hi''" and target = "''42''" and body = "''hi''"
                         and d = ?alice]
    by simp
  have e: "whisper_messages (fst (register (store_user_info ?st 9 ?u) 0 42 7 ''hi'')) 10000000
             = Some (42, 7, ''hi'')"
    by (simp add: register_whispers generate_message_id_def randint_def)
  have f: "whisper_messages ?st 10000000 = None"
    by (simp add: initial_state_def)
  have g: "whisper_messages (fst (handle_wspr_query ?st 9 0 ?u ''wspr 42 hi'')) \<noteq>
             whisper_messages ?st"
    using d e f by (metis option.distinct(1))
  show ?thesis
    using s1 s2 s3 s4 s5 s6 s7 g1 g2 a b c d e g by (simp only: simp_thms)
qed

end
